theory Spec2Isabelle
  imports Main "HOL-Library.Sublist"
begin

section \<open>The XML documentation to styled HTML converter\<close>

text \<open>
  A shallow embedding of \<^verbatim>\<open>scripts/convert_xml_doc_to_styled_html.py\<close>.
  A Python \<^verbatim>\<open>str\<close> is a \<^typ>\<open>string\<close>; a \<^typ>\<open>char\<close> stands for the code point of
  the same number, so the embedding covers the code points below 256. The glyphs that open
  the two diagnostic lines lie outside that range and are kept as the bytes the source file
  stores for them; a file holds the text written to it, its encoding left aside. The functions of the Python standard library that the script calls
  (\<^verbatim>\<open>str.strip\<close>, \<^verbatim>\<open>str.replace\<close>, \<^verbatim>\<open>str.join\<close>, \<^verbatim>\<open>html.escape\<close>, \<^verbatim>\<open>Element.find\<close>,
  \<^verbatim>\<open>Element.iter\<close>, \<^verbatim>\<open>Element.findall\<close>, \<^verbatim>\<open>str(Path(p))\<close>) are embedded after their library
  sources.
\<close>

subsection \<open>Strings\<close>

text \<open>\<^verbatim>\<open>str.isspace\<close> on one character: the white space of Unicode below code point 256.\<close>

definition isspace :: "char \<Rightarrow> bool" where
  "isspace c = (of_char c \<in> {9, 10, 11, 12, 13, 28, 29, 30, 31, 32, 133, 160 :: nat})"

text \<open>\<^verbatim>\<open>s.strip()\<close>: white space removed at both ends.\<close>

definition strip :: "string \<Rightarrow> string" where
  "strip s = rev (dropWhile isspace (rev (dropWhile isspace s)))"

text \<open>\<^verbatim>\<open>s.replace(old, new)\<close> for a pattern \<open>old\<close> of one character, the only use the
  library's \<^verbatim>\<open>html.escape\<close> makes of it.\<close>

definition replace :: "char \<Rightarrow> string \<Rightarrow> string \<Rightarrow> string" where
  "replace old new s = concat (map (\<lambda>c. if c = old then new else [c]) s)"

text \<open>\<^verbatim>\<open>html.escape(s)\<close> with its default \<^verbatim>\<open>quote=True\<close>: five replacements in the
  library's order, the ampersand first.\<close>

definition html_escape :: "string \<Rightarrow> string" where
  \<open>html_escape s =
     (let s = replace (CHR ''&'') ''&amp;'' s;
          s = replace (CHR ''<'') ''&lt;'' s;
          s = replace (CHR ''>'') ''&gt;'' s;
          s = replace (CHR 0x22) ''&quot;'' s;
          s = replace (CHR 0x27) ''&#x27;'' s
      in s)\<close>

text \<open>\<^verbatim>\<open>sep.join(parts)\<close>.\<close>

fun join :: "string \<Rightarrow> string list \<Rightarrow> string" where
  "join sep [] = []"
| "join sep [x] = x"
| "join sep (x # y # ys) = x @ sep @ join sep (y # ys)"

text \<open>The decimal numeral an f-string prints for a non-negative \<^verbatim>\<open>int\<close>.\<close>

fun str_nat :: "nat \<Rightarrow> string" where
  "str_nat n =
     (if n < 10 then [''0123456789'' ! n]
      else str_nat (n div 10) @ [''0123456789'' ! (n mod 10)])"

subsection \<open>Element trees\<close>

text \<open>
  An \<^verbatim>\<open>xml.etree.ElementTree.Element\<close>: its tag, its attribute dictionary, its text
  (\<^verbatim>\<open>None\<close> or a string) and its child elements in document order.
\<close>

datatype element =
  Element (el_tag: string) (el_attrib: "(string \<times> string) list")
          (el_text: "string option") (el_children: "element list")

text \<open>\<^verbatim>\<open>attrib.get(key, default)\<close>.\<close>

definition attrib_get :: "(string \<times> string) list \<Rightarrow> string \<Rightarrow> string \<Rightarrow> string" where
  "attrib_get attrib key dflt = (case map_of attrib key of Some v \<Rightarrow> v | None \<Rightarrow> dflt)"

text \<open>\<^verbatim>\<open>elem.find(tag)\<close> for a plain tag: the first child element with that tag.\<close>

definition find_tag :: "element \<Rightarrow> string \<Rightarrow> element option" where
  "find_tag elem t = List.find (\<lambda>e. el_tag e = t) (el_children elem)"

text \<open>\<^verbatim>\<open>elem.iter(tag)\<close>: the element itself when its tag matches, then its children's
  iterations, in document order.\<close>

fun iter :: "string \<Rightarrow> element \<Rightarrow> element list" where
  "iter t (Element tg attrib tx cs) =
     (if tg = t then [Element tg attrib tx cs] else []) @ concat (map (iter t) cs)"

text \<open>\<^verbatim>\<open>elem.findall(".//" + tag)\<close>: what \<^verbatim>\<open>elem.iter(tag)\<close> yields, the element
  \<open>elem\<close> itself left out. A finite tree does not occur below itself, so only the head of
  the iteration is ever left out.\<close>

definition findall_descendants :: "element \<Rightarrow> string \<Rightarrow> element list" where
  "findall_descendants elem t = concat (map (iter t) (el_children elem))"

subsection \<open>The script\<close>

definition get_css_styles :: string where
  "get_css_styles =
     ''\<newline>'' @
     ''        body {\<newline>'' @
     ''            font-family: 'Segoe UI', Tahoma, Geneva, Verdana, sans-serif;\<newline>'' @
     ''            margin: 2em;\<newline>'' @
     ''            background-color: #f8f9fa;\<newline>'' @
     ''            color: #333;\<newline>'' @
     ''            line-height: 1.6;\<newline>'' @
     ''        }\<newline>'' @
     ''\<newline>'' @
     ''        h1 {\<newline>'' @
     ''            color: #0d47a1;\<newline>'' @
     ''            border-bottom: 2px solid #1976d2;\<newline>'' @
     ''            padding-bottom: 0.3em;\<newline>'' @
     ''            margin-bottom: 1em;\<newline>'' @
     ''        }\<newline>'' @
     ''\<newline>'' @
     ''        h2 {\<newline>'' @
     ''            color: #1565c0;\<newline>'' @
     ''            margin-top: 1.5em;\<newline>'' @
     ''            margin-bottom: 0.5em;\<newline>'' @
     ''        }\<newline>'' @
     ''\<newline>'' @
     ''        p {\<newline>'' @
     ''            margin: 0.5em 0 1em;\<newline>'' @
     ''            line-height: 1.6;\<newline>'' @
     ''        }\<newline>'' @
     ''\<newline>'' @
     ''        .member-block {\<newline>'' @
     ''            background-color: #ffffff;\<newline>'' @
     ''            border-left: 4px solid #42a5f5;\<newline>'' @
     ''            padding: 1em;\<newline>'' @
     ''            margin: 1em 0;\<newline>'' @
     ''            box-shadow: 0 2px 4px rgba(0,0,0,0.05);\<newline>'' @
     ''            border-radius: 4px;\<newline>'' @
     ''        }\<newline>'' @
     ''\<newline>'' @
     ''        code {\<newline>'' @
     ''            background-color: #eceff1;\<newline>'' @
     ''            padding: 0.2em 0.4em;\<newline>'' @
     ''            border-radius: 3px;\<newline>'' @
     ''            font-family: 'Consolas', 'Monaco', 'Courier New', monospace;\<newline>'' @
     ''            font-size: 0.9em;\<newline>'' @
     ''        }\<newline>'' @
     ''\<newline>'' @
     ''        .member-name {\<newline>'' @
     ''            font-family: 'Consolas', 'Monaco', 'Courier New', monospace;\<newline>'' @
     ''            font-size: 0.9em;\<newline>'' @
     ''            color: #424242;\<newline>'' @
     ''        }\<newline>'' @
     ''\<newline>'' @
     ''        .no-summary {\<newline>'' @
     ''            color: #757575;\<newline>'' @
     ''            font-style: italic;\<newline>'' @
     ''        }\<newline>'' @
     ''    ''"

definition no_summary :: string where
  \<open>no_summary = ''<span class="no-summary">No summary available.</span>''\<close>

definition extract_member_info :: "element \<Rightarrow> string \<times> string" where
  "extract_member_info member_element =
     (let name = attrib_get (el_attrib member_element) ''name'' ''Unknown'';
          summary_elem = find_tag member_element ''summary'';
          summary =
            (case summary_elem of
               None \<Rightarrow> no_summary
             | Some se \<Rightarrow>
                 (case el_text se of
                    None \<Rightarrow> no_summary
                  | Some t \<Rightarrow> if t \<noteq> [] then html_escape (strip t) else no_summary))
      in (name, summary))"

definition default_title :: string where
  "default_title = ''NuGetInspectorApp Documentation''"

text \<open>The fragments the loop of \<^verbatim>\<open>generate_html_content\<close> appends for one member.\<close>

definition member_parts :: "element \<Rightarrow> string list" where
  "member_parts member =
     (let (name, summary) = extract_member_info member
      in [''    <div class='member-block'>'',
          ''        <h2><code class='member-name'>'' @ html_escape name @ ''</code></h2>'',
          ''        <p>'' @ summary @ ''</p>'',
          ''    </div>''])"

definition generate_html_content :: "element \<Rightarrow> string \<Rightarrow> string" where
  "generate_html_content xml_root title =
     (let html_parts =
            [''<!DOCTYPE html>'',
             ''<html lang='en'>'',
             ''<head>'',
             ''    <meta charset='UTF-8'>'',
             ''    <meta name='viewport' content='width=device-width, initial-scale=1.0'>'',
             ''    <title>'' @ html_escape title @ ''</title>'',
             ''    <style>'',
             get_css_styles,
             ''    </style>'',
             ''</head>'',
             ''<body>'',
             ''    <h1>'' @ html_escape title @ ''</h1>''];
          members = findall_descendants xml_root ''member'';
          html_parts = foldl (\<lambda>parts member. parts @ member_parts member) html_parts members;
          html_parts = html_parts @ [''</body>'', ''</html>'']
      in join ''\<newline>'' html_parts)"

subsection \<open>Paths\<close>

text \<open>\<^verbatim>\<open>s.split(sep)\<close> for a separator of one character.\<close>

fun str_split :: "char \<Rightarrow> string \<Rightarrow> string list" where
  "str_split sep [] = [[]]"
| "str_split sep (c # cs) =
     (if c = sep then [] # str_split sep cs
      else (case str_split sep cs of [] \<Rightarrow> [[c]] | p # ps \<Rightarrow> (c # p) # ps))"

text \<open>\<^verbatim>\<open>posixpath.splitroot(p)\<close>, the drive left out (it is empty on POSIX): the root is
  \<open>//\<close> for exactly two leading slashes and \<open>/\<close> for one or for three and more.\<close>

definition splitroot :: "string \<Rightarrow> string \<times> string" where
  "splitroot p =
     (if take 1 p \<noteq> ''/'' then ([], p)
      else if take 1 (drop 1 p) \<noteq> ''/'' \<or> take 1 (drop 2 p) = ''/'' then (''/'', drop 1 p)
      else (''//'', drop 2 p))"

text \<open>\<^verbatim>\<open>str(Path(p))\<close> on POSIX: the root, then the components that are neither empty nor
  a single dot, joined by slashes; a dot when nothing is left. The script hands this string
  to the file system and prints it.\<close>

definition path_str :: "string \<Rightarrow> string" where
  "path_str p =
     (let (root, rel) = splitroot p;
          parts = filter (\<lambda>x. x \<noteq> [] \<and> x \<noteq> ''.'') (str_split (CHR ''/'') rel);
          s = root @ join ''/'' parts
      in if s = [] then ''.'' else s)"

subsection \<open>The conversion driver\<close>

text \<open>The exceptions that leave the driver.\<close>

datatype error =
  FileNotFoundError string | IsADirectoryError | PermissionError
  | ParseError | LookupError | ValueError

text \<open>
  The world the driver acts on. At a path the file system holds nothing, a directory, or a
  file with its text. Opening a file can fail for reasons the tree of entries does not show
  (permissions, a missing parent directory): \<open>read_error\<close> and \<open>write_error\<close> give the
  exception that opening the path for reading or for writing raises, \<open>None\<close> when it
  opens. \<open>stdout\<close> holds the lines printed so far.
\<close>

datatype entry = File string | Directory

record world =
  fs :: "string \<rightharpoonup> entry"
  read_error :: "string \<Rightarrow> error option"
  write_error :: "string \<Rightarrow> error option"
  stdout :: "string list"

text \<open>What \<^verbatim>\<open>open(path, "w")\<close> raises: a directory cannot be opened for writing.\<close>

definition open_write_error :: "world \<Rightarrow> string \<Rightarrow> error option" where
  "open_write_error w p =
     (case fs w p of Some Directory \<Rightarrow> Some IsADirectoryError | _ \<Rightarrow> write_error w p)"

definition written_glyph :: string where
  "written_glyph = [CHR 0xE2, CHR 0x80, CHR 0x9A, CHR 0xC3, CHR 0xBA, CHR 0xC3, CHR 0x96]"

definition processed_glyph :: string where
  "processed_glyph =
     [CHR 0xEF, CHR 0xA3, CHR 0xBF, CHR 0xC3, CHR 0xBC, CHR 0xC3, CHR 0xAC, CHR 0xC3, CHR 0xA4]"

text \<open>
  \<^verbatim>\<open>convert_xml_to_html\<close>. The XML parser behind \<^verbatim>\<open>ET.parse\<close> is the parameter
  \<open>parse\<close>: from the text of the file it gives the root element, or the exception the
  library raises (\<^verbatim>\<open>ParseError\<close> for text it finds not well-formed, \<^verbatim>\<open>LookupError\<close> or
  \<^verbatim>\<open>ValueError\<close> for an encoding declaration it cannot serve). \<^verbatim>\<open>Path.exists\<close> holds of
  files and of directories alike; \<^verbatim>\<open>ET.parse\<close> then opens the path, which fails on a
  directory. A raise is the \<open>Inl\<close> of the result, beside the world as it is then.
\<close>

definition convert_xml_to_html ::
  "(string \<Rightarrow> error + element) \<Rightarrow> string \<Rightarrow> string \<Rightarrow> world \<Rightarrow> (error + unit) \<times> world" where
  "convert_xml_to_html parse input_path output_path w =
     (let input_file = path_str input_path;
          output_file = path_str output_path
      in case fs w input_file of
           None \<Rightarrow> (Inl (FileNotFoundError (''Input file not found: '' @ input_path)), w)
         | Some Directory \<Rightarrow> (Inl IsADirectoryError, w)
         | Some (File content) \<Rightarrow>
             (case read_error w input_file of
                Some e \<Rightarrow> (Inl e, w)
              | None \<Rightarrow>
                  (case parse content of
                     Inl e \<Rightarrow> (Inl e, w)
                   | Inr root \<Rightarrow>
                       (let html_content = generate_html_content root default_title
                        in case open_write_error w output_file of
                             Some e \<Rightarrow> (Inl e, w)
                           | None \<Rightarrow>
                               (let w = w\<lparr>fs := (fs w)(output_file \<mapsto> File html_content)\<rparr>;
                                    w = w\<lparr>stdout := stdout w @
                                          [written_glyph @ '' Styled documentation written to '' @
                                           output_file]\<rparr>;
                                    w = w\<lparr>stdout := stdout w @
                                          [processed_glyph @ '' Processed '' @
                                           str_nat (length (findall_descendants root ''member'')) @
                                           '' documentation members'']\<rparr>
                                in (Inr (), w))))))"

subsection \<open>Observations on the output\<close>

text \<open>
  What \<^verbatim>\<open>html.escape\<close> does to one character: the table its five replacements amount to.
\<close>

definition escape_char :: "char \<Rightarrow> string" where
  \<open>escape_char c =
     (if c = CHR ''&'' then ''&amp;''
      else if c = CHR ''<'' then ''&lt;''
      else if c = CHR ''>'' then ''&gt;''
      else if c = CHR 0x22 then ''&quot;''
      else if c = CHR 0x27 then ''&#x27;''
      else [c])\<close>

text \<open>
  Reading escaped text back, as an HTML parser reads character data: the five character
  references that \<^verbatim>\<open>html.escape\<close> writes are decoded in one pass from left to right,
  every other character stands for itself.
\<close>

fun html_unescape :: "string \<Rightarrow> string" where
  "html_unescape [] = []"
| "html_unescape (c # cs) =
     (if c = CHR ''&'' \<and> prefix ''amp;'' cs then CHR ''&'' # html_unescape (drop 4 cs)
      else if c = CHR ''&'' \<and> prefix ''lt;'' cs then CHR ''<'' # html_unescape (drop 3 cs)
      else if c = CHR ''&'' \<and> prefix ''gt;'' cs then CHR ''>'' # html_unescape (drop 3 cs)
      else if c = CHR ''&'' \<and> prefix ''quot;'' cs then CHR 0x22 # html_unescape (drop 5 cs)
      else if c = CHR ''&'' \<and> prefix ''#x27;'' cs then CHR 0x27 # html_unescape (drop 5 cs)
      else c # html_unescape cs)"

text \<open>
  The member blocks of a document are the occurrences of the opening tag that the renderer
  writes at the start of each block, counted position by position.
\<close>

fun count_occurrences :: "string \<Rightarrow> string \<Rightarrow> nat" where
  "count_occurrences m [] = 0"
| "count_occurrences m (c # cs) = (if prefix m (c # cs) then 1 else 0) + count_occurrences m cs"

definition block_open :: string where
  "block_open = ''<div class='member-block'>''"

definition count_member_blocks :: "string \<Rightarrow> nat" where
  "count_member_blocks s = count_occurrences block_open s"

text \<open>The elements below an element, in document order (pre-order, the element itself not
  included), and the test for a member node.\<close>

fun descendants :: "element \<Rightarrow> element list" where
  "descendants (Element tg attrib tx cs) = concat (map (\<lambda>c. c # descendants c) cs)"

definition is_member :: "element \<Rightarrow> bool" where
  "is_member e = (el_tag e = ''member'')"

text \<open>The fragments \<^verbatim>\<open>generate_html_content\<close> writes before and after the member blocks.\<close>

definition document_head :: "string \<Rightarrow> string list" where
  "document_head title =
     [''<!DOCTYPE html>'',
      ''<html lang='en'>'',
      ''<head>'',
      ''    <meta charset='UTF-8'>'',
      ''    <meta name='viewport' content='width=device-width, initial-scale=1.0'>'',
      ''    <title>'' @ html_escape title @ ''</title>'',
      ''    <style>'',
      get_css_styles,
      ''    </style>'',
      ''</head>'',
      ''<body>'',
      ''    <h1>'' @ html_escape title @ ''</h1>'']"

definition document_tail :: "string list" where
  "document_tail = [''</body>'', ''</html>'']"

text \<open>What \<^verbatim>\<open>extract_member_info\<close> makes of the text of the summary element it found.\<close>

definition summary_if_present :: "string option \<Rightarrow> string" where
  "summary_if_present tx =
     (case tx of None \<Rightarrow> no_summary
      | Some t \<Rightarrow> if t \<noteq> [] then html_escape (strip t) else no_summary)"

text \<open>
  Reading a decimal numeral: the number it writes, \<open>None\<close> for the empty string and for
  a string with a character that is no digit.
\<close>

definition digit_value :: "char \<Rightarrow> nat option" where
  "digit_value c =
     (let n = of_char c :: nat in if 48 \<le> n \<and> n \<le> 57 then Some (n - 48) else None)"

fun decimal_acc :: "nat \<Rightarrow> string \<Rightarrow> nat option" where
  "decimal_acc a [] = Some a"
| "decimal_acc a (c # cs) =
     (case digit_value c of None \<Rightarrow> None | Some d \<Rightarrow> decimal_acc (10 * a + d) cs)"

definition decimal_value :: "string \<Rightarrow> nat option" where
  "decimal_value s = (if s = [] then None else decimal_acc 0 s)"



subsection \<open>Sample inputs\<close>

definition sample_summary :: element where
  "sample_summary = Element ''summary'' [] (Some '' a < b & c '') []"

definition sample_member :: element where
  "sample_member = Element ''member'' [(''name'', ''M:Demo.Run'')] None [sample_summary]"

definition blank_member :: element where
  "blank_member = Element ''member'' [(''name'', ''M:Demo.Blank'')] None
     [Element ''summary'' [] (Some ''   '') []]"

definition wrapped_member :: element where
  "wrapped_member = Element ''member'' [] None [Element ''remarks'' [] None [sample_summary]]"

definition twice_member :: element where
  "twice_member = Element ''member'' [] None
     [Element ''param'' [] (Some ''p'') [], Element ''summary'' [] (Some ''first'') [],
      Element ''summary'' [] (Some ''second'') []]"

definition empty_doc :: element where
  "empty_doc = Element ''doc'' [] None [Element ''assembly'' [] None [Element ''name'' [] (Some ''Demo'') []]]"

definition sample_doc :: element where
  "sample_doc = Element ''doc'' [] None [Element ''members'' [] None [sample_member, wrapped_member]]"

text \<open>
  Four texts and what \<^verbatim>\<open>ET.parse\<close> makes of them: the tree of a document with two
  members, the tree of a document with none, \<^verbatim>\<open>ParseError\<close> for a root that is never
  closed, and \<^verbatim>\<open>LookupError\<close> for a declaration that names an encoding Python does not
  know (the parser looks the encoding up before it reads on). \<open>sample_parse\<close> is the parser
  on these texts; every other text counts as rejected.
\<close>

definition members_xml :: string where
  \<open>members_xml =
     ''<doc><members><member name="M:Demo.Run"><summary> a &lt; b &amp; c </summary></member>'' @
     ''<member><remarks><summary> a &lt; b &amp; c </summary></remarks></member></members></doc>''\<close>

definition empty_xml :: string where
  "empty_xml = ''<doc><assembly><name>Demo</name></assembly></doc>''"

definition unclosed_xml :: string where
  "unclosed_xml = ''<doc>''"

definition bogus_xml :: string where
  \<open>bogus_xml = ''<?xml version="1.0" encoding="bogus"?><doc>''\<close>

definition sample_parse :: "string \<Rightarrow> error + element" where
  "sample_parse s =
     (if s = members_xml then Inr sample_doc
      else if s = empty_xml then Inr empty_doc
      else if s = bogus_xml then Inl LookupError
      else Inl ParseError)"

definition sample_world :: world where
  "sample_world =
     \<lparr>fs = [''in.xml'' \<mapsto> File members_xml, ''empty.xml'' \<mapsto> File empty_xml,
             ''bad.xml'' \<mapsto> File unclosed_xml, ''bogus.xml'' \<mapsto> File bogus_xml,
             ''indir'' \<mapsto> Directory],
      read_error = (\<lambda>p. None), write_error = (\<lambda>p. None), stdout = []\<rparr>"

section \<open>Properties\<close>

subsection \<open>Escaping\<close>

lemma replace_Nil [simp]: "replace old new [] = []"
  by (simp add: replace_def)

lemma replace_append: "replace old new (xs @ ys) = replace old new xs @ replace old new ys"
  by (simp add: replace_def)

lemma replace_Cons: "replace old new (c # cs) = (if c = old then new else [c]) @ replace old new cs"
  by (simp add: replace_def)

lemma html_escape_Nil [simp]: "html_escape [] = []"
  by (simp add: html_escape_def)

lemma html_escape_Cons: "html_escape (c # cs) = escape_char c @ html_escape cs"
  by (simp add: html_escape_def escape_char_def replace_Cons replace_append)

lemma html_escape_concat: "html_escape s = concat (map escape_char s)"
  by (induction s) (simp_all add: html_escape_Cons)

lemma escape_char_set:
  "CHR ''<'' \<notin> set (escape_char c)" "CHR ''>'' \<notin> set (escape_char c)"
  "CHR 0x22 \<notin> set (escape_char c)" "CHR 0x27 \<notin> set (escape_char c)"
  "CHR ''\<newline>'' \<in> set (escape_char c) \<longleftrightarrow> c = CHR ''\<newline>''"
  by (auto simp add: escape_char_def)

lemma html_escape_free:
  "CHR ''<'' \<notin> set (html_escape s)" "CHR ''>'' \<notin> set (html_escape s)"
  "CHR 0x22 \<notin> set (html_escape s)" "CHR 0x27 \<notin> set (html_escape s)"
  by (simp_all add: html_escape_concat escape_char_set)

lemma html_unescape_escape_char: "html_unescape (escape_char c @ r) = c # html_unescape r"
  by (simp add: escape_char_def)

lemma html_unescape_escape: "html_unescape (html_escape s) = s"
  by (induction s) (simp_all add: html_escape_Cons html_unescape_escape_char)

subsection \<open>Traversal\<close>

lemma iter_filter: "iter t e = filter (\<lambda>x. el_tag x = t) (e # descendants e)"
proof (induction e)
  case (Element tg attrib tx cs)
  have "concat (map (iter t) cs) = concat (map (\<lambda>c. filter (\<lambda>x. el_tag x = t) (c # descendants c)) cs)"
    using Element.IH by (intro arg_cong[where f=concat] map_cong refl) 
  then show ?case
    by (simp add: filter_concat comp_def)
qed

lemma findall_descendants_filter:
  "findall_descendants e t = filter (\<lambda>x. el_tag x = t) (descendants e)"
proof (cases e)
  case (Element tg attrib tx cs)
  have "iter t = (\<lambda>c. filter (\<lambda>x. el_tag x = t) (c # descendants c))"
    by (rule ext) (rule iter_filter)
  then have "concat (map (iter t) cs) = concat (map (\<lambda>c. filter (\<lambda>x. el_tag x = t) (c # descendants c)) cs)"
    by (simp only:)
  with Element show ?thesis
    by (simp add: findall_descendants_def filter_concat comp_def)
qed

lemma findall_members:
  "findall_descendants e ''member'' = filter is_member (descendants e)"
  using findall_descendants_filter[of e "''member''"] by (simp add: is_member_def[abs_def])

lemma foldl_append_parts: "foldl (\<lambda>parts x. parts @ f x) acc xs = acc @ concat (map f xs)"
  by (induction xs arbitrary: acc) simp_all

lemma generate_html_content_parts:
  "generate_html_content xml_root title =
     join ''\<newline>'' (document_head title
        @ concat (map member_parts (findall_descendants xml_root ''member''))
        @ document_tail)"
  by (simp add: generate_html_content_def document_head_def document_tail_def
        foldl_append_parts Let_def)

subsection \<open>Counting member blocks\<close>

text \<open>The opening tag holds no line break, so its occurrences in lines joined by line breaks
  are the occurrences in the lines.\<close>

lemma prefix_append_sep:
  assumes "sep \<notin> set m"
  shows "prefix m (a @ sep # b) \<longleftrightarrow> prefix m a"
proof
  assume "prefix m (a @ sep # b)"
  then obtain r where r: "a @ sep # b = m @ r" by (auto simp: prefix_def)
  show "prefix m a"
  proof (cases "length m \<le> length a")
    case True
    with r show ?thesis
      by (metis append_eq_append_conv_if prefix_def append_take_drop_id prefixI take_is_prefix)
  next
    case False
    then have "length a < length m" by simp
    then have "m ! length a = (a @ sep # b) ! length a"
      using r by (simp add: nth_append)
    then have "m ! length a = sep" by simp
    with \<open>length a < length m\<close> assms show ?thesis by (metis nth_mem)
  qed
next
  assume "prefix m a" then show "prefix m (a @ sep # b)" by (simp add: prefix_prefix)
qed

lemma count_occurrences_sep:
  assumes "sep \<notin> set m" and "m \<noteq> []"
  shows "count_occurrences m (a @ sep # b) = count_occurrences m a + count_occurrences m b"
proof (induction a)
  case Nil
  have "\<not> prefix m (sep # b)" using prefix_append_sep[OF assms(1), of "[]" b] assms(2) by simp
  then show ?case by simp
next
  case (Cons c a)
  then show ?case using prefix_append_sep[OF assms(1), of "c # a" b] by simp
qed

lemma count_occurrences_join:
  assumes "sep \<notin> set m" and "m \<noteq> []"
  shows "count_occurrences m (join [sep] parts) = sum_list (map (count_occurrences m) parts)"
proof (induction "[sep]" parts rule: join.induct)
  case (3 x y ys)
  then show ?case using count_occurrences_sep[OF assms, of x "join [sep] (y # ys)"] by simp
qed simp_all

text \<open>Escaped text holds no \<open><\<close>, so no occurrence starts inside it.\<close>

lemma count_blocks_other:
  "c \<noteq> CHR ''<'' \<Longrightarrow> count_occurrences block_open (c # cs) = count_occurrences block_open cs"
  by (simp add: block_open_def)

lemma count_blocks_lt:
  "\<not> prefix ''div class='member-block'>'' cs \<Longrightarrow>
   count_occurrences block_open (CHR ''<'' # cs) = count_occurrences block_open cs"
  by (simp add: block_open_def)

lemma count_blocks_hit:
  "prefix ''div class='member-block'>'' cs \<Longrightarrow>
   count_occurrences block_open (CHR ''<'' # cs) = Suc (count_occurrences block_open cs)"
  by (simp add: block_open_def)

lemma count_blocks_skip:
  "CHR ''<'' \<notin> set e \<Longrightarrow> count_occurrences block_open (e @ r) = count_occurrences block_open r"
proof (induction e)
  case (Cons c e)
  then have "c \<noteq> CHR ''<''" by auto
  then show ?case using Cons by (simp add: count_blocks_other del: count_occurrences.simps)
qed simp

lemma count_blocks_free: "CHR ''<'' \<notin> set e \<Longrightarrow> count_occurrences block_open e = 0"
  using count_blocks_skip[of e "[]"] by simp

lemmas count_blocks_simps = count_blocks_other count_blocks_lt count_blocks_skip html_escape_free

lemma count_blocks_title:
  "count_occurrences block_open (''    <title>'' @ html_escape t @ ''</title>'') = 0"
  by (simp add: count_blocks_simps del: count_occurrences.simps(2))

lemma count_blocks_h1:
  "count_occurrences block_open (''    <h1>'' @ html_escape t @ ''</h1>'') = 0"
  by (simp add: count_blocks_simps del: count_occurrences.simps(2))

lemma css_free: "CHR ''<'' \<notin> set get_css_styles"
  by (simp add: get_css_styles_def)

lemma count_blocks_css: "count_occurrences block_open get_css_styles = 0"
  by (rule count_blocks_free) (rule css_free)

lemma count_blocks_head:
  "sum_list (map (count_occurrences block_open) (document_head title)) = 0"
  by (simp add: document_head_def count_blocks_simps count_blocks_css count_blocks_title
        count_blocks_h1 del: count_occurrences.simps(2))

lemma count_blocks_tail:
  "sum_list (map (count_occurrences block_open) document_tail) = 0"
  by (simp add: document_tail_def count_blocks_simps del: count_occurrences.simps(2))

lemma extract_member_info_summary_cases:
  "snd (extract_member_info m) = no_summary \<or> (\<exists>t. snd (extract_member_info m) = html_escape t)"
  by (auto simp add: extract_member_info_def Let_def split: option.splits)

lemma count_blocks_p_escaped:
  "count_occurrences block_open (''        <p>'' @ html_escape t @ ''</p>'') = 0"
  by (simp add: count_blocks_simps del: count_occurrences.simps(2))

lemma count_blocks_p_no_summary:
  "count_occurrences block_open (''        <p>'' @ no_summary @ ''</p>'') = 0"
  by (simp add: count_blocks_simps no_summary_def del: count_occurrences.simps(2))

lemma count_blocks_member_parts:
  "sum_list (map (count_occurrences block_open) (member_parts m)) = 1"
proof -
  obtain name summary where nm: "extract_member_info m = (name, summary)"
    by (cases "extract_member_info m")
  have "count_occurrences block_open (''        <p>'' @ summary @ ''</p>'') = 0"
    using extract_member_info_summary_cases[of m] nm
    by (auto simp only: snd_conv count_blocks_p_escaped count_blocks_p_no_summary)
  moreover have "count_occurrences block_open ''    <div class='member-block'>'' = 1"
    by (simp add: count_blocks_simps count_blocks_hit del: count_occurrences.simps(2))
  moreover have "count_occurrences block_open ''    </div>'' = 0"
    by (simp add: count_blocks_simps del: count_occurrences.simps(2))
  ultimately show ?thesis
    by (simp add: member_parts_def nm count_blocks_simps del: count_occurrences.simps(2))
qed

lemma count_blocks_members:
  "sum_list (map (count_occurrences block_open) (concat (map member_parts ms))) = length ms"
  by (induction ms) (simp_all add: count_blocks_member_parts del: count_occurrences.simps(2))

lemma count_member_blocks_generate:
  "count_member_blocks (generate_html_content xml_root title)
     = length (findall_descendants xml_root ''member'')"
proof -
  have "CHR ''\<newline>'' \<notin> set block_open" "block_open \<noteq> []"
    by (simp_all add: block_open_def)
  then show ?thesis
    unfolding count_member_blocks_def generate_html_content_parts
    by (simp add: count_occurrences_join count_blocks_head count_blocks_tail count_blocks_members
          del: count_occurrences.simps(2))
qed

subsection \<open>Children of a member\<close>

lemma find_first_match:
  "\<lbrakk>list_all (\<lambda>c. \<not> P c) pre; P s\<rbrakk> \<Longrightarrow> List.find P (pre @ s # post) = Some s"
  by (induction pre) simp_all

lemma find_no_match: "list_all (\<lambda>c. \<not> P c) cs \<Longrightarrow> List.find P cs = None"
  by (induction cs) simp_all

lemma extract_member_info_name:
  "fst (extract_member_info m) = attrib_get (el_attrib m) ''name'' ''Unknown''"
  by (simp add: extract_member_info_def Let_def)

subsection \<open>Fragments in the document\<close>

lemma sublist_join: "x \<in> set xs \<Longrightarrow> sublist x (join sep xs)"
proof (induction sep xs rule: join.induct)
  case (3 sep a b bs)
  show ?case
  proof (cases "x = a")
    case True
    then show ?thesis by simp
  next
    case False
    with 3 have "sublist x (join sep (b # bs))" by simp
    then obtain ps ss where "join sep (b # bs) = ps @ x @ ss" by (auto simp: sublist_def)
    then have "join sep (a # b # bs) = (a @ sep @ ps) @ x @ ss" by simp
    then show ?thesis unfolding sublist_def by blast
  qed
qed simp_all

lemma prefix_join: "prefix x (join sep (x # xs))"
  by (cases xs) simp_all

lemma suffix_join: "xs \<noteq> [] \<Longrightarrow> suffix (last xs) (join sep xs)"
proof (induction sep xs rule: join.induct)
  case (3 sep a b bs)
  then have "suffix (last (b # bs)) (join sep (b # bs))" by simp
  then show ?case by (simp add: suffix_appendI)
qed simp_all

lemma head_in_document:
  "x \<in> set (document_head title) \<Longrightarrow> sublist x (generate_html_content xml_root title)"
  unfolding generate_html_content_parts by (rule sublist_join) simp

lemma tail_in_document:
  "x \<in> set document_tail \<Longrightarrow> sublist x (generate_html_content xml_root title)"
  unfolding generate_html_content_parts by (rule sublist_join) simp



lemma document_starts: "prefix ''<!DOCTYPE html>'' (generate_html_content xml_root title)"
  unfolding generate_html_content_parts document_head_def by (simp only: append_Cons prefix_join)

lemma document_ends: "suffix ''</html>'' (generate_html_content xml_root title)"
proof -
  let ?parts = "document_head title
        @ concat (map member_parts (findall_descendants xml_root ''member'')) @ document_tail"
  have ne: "?parts \<noteq> []" and l: "last ?parts = ''</html>''"
    by (simp_all add: document_tail_def)
  from suffix_join[OF ne, of "''\<newline>''"] show ?thesis
    by (simp only: generate_html_content_parts l)
qed

subsection \<open>Counting title and heading tags\<close>

lemma count_tag_other:
  "c \<noteq> CHR ''<'' \<Longrightarrow>
   count_occurrences (CHR ''<'' # m) (c # cs) = count_occurrences (CHR ''<'' # m) cs"
  by simp

lemma count_tag_miss:
  "\<not> prefix m cs \<Longrightarrow>
   count_occurrences (CHR ''<'' # m) (CHR ''<'' # cs) = count_occurrences (CHR ''<'' # m) cs"
  by simp

lemma count_tag_hit:
  "prefix m cs \<Longrightarrow>
   count_occurrences (CHR ''<'' # m) (CHR ''<'' # cs) = Suc (count_occurrences (CHR ''<'' # m) cs)"
  by simp

lemma count_tag_skip:
  "CHR ''<'' \<notin> set e \<Longrightarrow>
   count_occurrences (CHR ''<'' # m) (e @ r) = count_occurrences (CHR ''<'' # m) r"
proof (induction e)
  case (Cons c e)
  then have "c \<noteq> CHR ''<''" by auto
  then show ?case using Cons by (simp add: count_tag_other del: count_occurrences.simps)
qed simp

lemma count_tag_free:
  "CHR ''<'' \<notin> set e \<Longrightarrow> count_occurrences (CHR ''<'' # m) e = 0"
  using count_tag_skip[of e m "[]"] by simp

lemmas count_tag_simps =
  count_tag_other count_tag_miss count_tag_hit count_tag_skip html_escape_free

lemma count_h1_head:
  "sum_list (map (count_occurrences ''<h1>'') (document_head title)) = 1"
  by (simp add: document_head_def count_tag_simps count_tag_free[OF css_free]
        del: count_occurrences.simps(2))

lemma count_title_head:
  "sum_list (map (count_occurrences ''<title>'') (document_head title)) = 1"
  by (simp add: document_head_def count_tag_simps count_tag_free[OF css_free]
        del: count_occurrences.simps(2))

lemma count_h1_tail: "sum_list (map (count_occurrences ''<h1>'') document_tail) = 0"
  by (simp add: document_tail_def count_tag_simps del: count_occurrences.simps(2))

lemma count_title_tail: "sum_list (map (count_occurrences ''<title>'') document_tail) = 0"
  by (simp add: document_tail_def count_tag_simps del: count_occurrences.simps(2))

lemma count_h1_member_parts:
  "sum_list (map (count_occurrences ''<h1>'') (member_parts m)) = 0"
proof -
  obtain name summary where nm: "extract_member_info m = (name, summary)"
    by (cases "extract_member_info m")
  have "count_occurrences ''<h1>'' (''        <p>'' @ summary @ ''</p>'') = 0"
    using extract_member_info_summary_cases[of m] nm
    by (auto simp add: count_tag_simps no_summary_def simp del: count_occurrences.simps(2))
  then show ?thesis
    by (simp add: member_parts_def nm count_tag_simps del: count_occurrences.simps(2))
qed

lemma count_title_member_parts:
  "sum_list (map (count_occurrences ''<title>'') (member_parts m)) = 0"
proof -
  obtain name summary where nm: "extract_member_info m = (name, summary)"
    by (cases "extract_member_info m")
  have "count_occurrences ''<title>'' (''        <p>'' @ summary @ ''</p>'') = 0"
    using extract_member_info_summary_cases[of m] nm
    by (auto simp add: count_tag_simps no_summary_def simp del: count_occurrences.simps(2))
  then show ?thesis
    by (simp add: member_parts_def nm count_tag_simps del: count_occurrences.simps(2))
qed

lemma count_h1_members:
  "sum_list (map (count_occurrences ''<h1>'') (concat (map member_parts ms))) = 0"
  by (induction ms) (simp_all add: count_h1_member_parts del: count_occurrences.simps(2))

lemma count_title_members:
  "sum_list (map (count_occurrences ''<title>'') (concat (map member_parts ms))) = 0"
  by (induction ms) (simp_all add: count_title_member_parts del: count_occurrences.simps(2))

lemma count_h1_generate:
  "count_occurrences ''<h1>'' (generate_html_content xml_root title) = 1"
proof -
  have "CHR ''\<newline>'' \<notin> set ''<h1>''" "''<h1>'' \<noteq> []" by simp_all
  then show ?thesis
    unfolding generate_html_content_parts
    by (simp add: count_occurrences_join count_h1_head count_h1_tail count_h1_members
          del: count_occurrences.simps(2))
qed

lemma count_title_generate:
  "count_occurrences ''<title>'' (generate_html_content xml_root title) = 1"
proof -
  have "CHR ''\<newline>'' \<notin> set ''<title>''" "''<title>'' \<noteq> []" by simp_all
  then show ?thesis
    unfolding generate_html_content_parts
    by (simp add: count_occurrences_join count_title_head count_title_tail count_title_members
          del: count_occurrences.simps(2))
qed

subsection \<open>Decimal numerals\<close>

declare str_nat.simps [simp del]

lemma digit_value_digit: "d < 10 \<Longrightarrow> digit_value (''0123456789'' ! d) = Some d"
proof -
  assume "d < 10"
  then consider "d = 0" | "d = 1" | "d = 2" | "d = 3" | "d = 4" | "d = 5" | "d = 6"
    | "d = 7" | "d = 8" | "d = 9" by atomize_elim arith
  then show ?thesis by cases (simp_all add: digit_value_def)
qed

lemma decimal_acc_snoc:
  "decimal_acc a (xs @ [c]) =
     (case decimal_acc a xs of None \<Rightarrow> None
      | Some v \<Rightarrow> (case digit_value c of None \<Rightarrow> None | Some d \<Rightarrow> Some (10 * v + d)))"
  by (induction xs arbitrary: a) (simp_all split: option.splits)

lemma str_nat_not_Nil: "str_nat n \<noteq> []"
  by (subst str_nat.simps) simp

lemma decimal_acc_str_nat: "decimal_acc 0 (str_nat n) = Some n"
proof (induction n rule: str_nat.induct)
  case (1 n)
  show ?case
  proof (cases "n < 10")
    case True
    then show ?thesis by (subst str_nat.simps) (simp add: digit_value_digit)
  next
    case False
    then have "decimal_acc 0 (str_nat (n div 10)) = Some (n div 10)" using 1 by simp
    moreover have "digit_value (''0123456789'' ! (n mod 10)) = Some (n mod 10)"
      by (rule digit_value_digit) simp
    ultimately show ?thesis using False
      by (subst str_nat.simps) (simp add: decimal_acc_snoc)
  qed
qed

lemma decimal_value_str_nat: "decimal_value (str_nat n) = Some n"
  by (simp add: decimal_value_def str_nat_not_Nil decimal_acc_str_nat)

subsection \<open>The driver\<close>

lemma convert_success:
  assumes "fst (convert_xml_to_html parse input_path output_path w) = Inr ()"
  obtains content root where
    "fs w (path_str input_path) = Some (File content)" and "parse content = Inr root" and
    "snd (convert_xml_to_html parse input_path output_path w)
       = w\<lparr>fs := (fs w)(path_str output_path \<mapsto> File (generate_html_content root default_title)),
            stdout := stdout w @
              [written_glyph @ '' Styled documentation written to '' @ path_str output_path,
               processed_glyph @ '' Processed '' @
                 str_nat (length (findall_descendants root ''member'')) @
                 '' documentation members'']\<rparr>"
  using assms
  by (auto simp add: convert_xml_to_html_def Let_def
        split: option.splits entry.splits sum.splits)

lemma sample_paths:
  "path_str ''in.xml'' = ''in.xml''" "path_str ''empty.xml'' = ''empty.xml''"
  "path_str ''./out.html'' = ''out.html''" "path_str ''out.html'' = ''out.html''"
  by (simp_all add: path_str_def splitroot_def)

lemma sample_conversion:
  "convert_xml_to_html sample_parse ''in.xml'' ''./out.html'' sample_world
     = (Inr (),
        sample_world\<lparr>fs := (fs sample_world)
             (''out.html'' \<mapsto> File (generate_html_content sample_doc default_title)),
           stdout := [written_glyph @ '' Styled documentation written to out.html'',
                      processed_glyph @ '' Processed 2 documentation members'']\<rparr>)"
proof -
  have n: "length (findall_descendants sample_doc ''member'') = Suc (Suc 0)"
    by (simp add: findall_descendants_def sample_doc_def sample_member_def wrapped_member_def
          sample_summary_def)
  have d: "str_nat (Suc (Suc 0)) = ''2''"
    by (subst str_nat.simps) simp
  have f: "fs sample_world ''in.xml'' = Some (File members_xml)"
    and r: "read_error sample_world ''in.xml'' = None"
    and o: "open_write_error sample_world ''out.html'' = None"
    and s: "stdout sample_world = []"
    by (simp_all add: sample_world_def open_write_error_def)
  have p: "sample_parse members_xml = Inr sample_doc"
    by (simp add: sample_parse_def)
  show ?thesis
    by (simp add: convert_xml_to_html_def Let_def sample_paths f r o s p n d)
qed

section \<open>The claims\<close>

text \<open>
  Claim C1. The rendered document is the head, then the four fragments of one member block
  for each element tagged \<open>member\<close> anywhere below the root, in document order, then the
  tail. Each member contributes exactly one block, so a tree with N member nodes below its
  root gives a document with exactly N member blocks.
\<close>

theorem member_blocks_in_document_order:
  "generate_html_content xml_root title =
     join ''\<newline>'' (document_head title
        @ concat (map member_parts (filter is_member (descendants xml_root)))
        @ document_tail)
   \<and> count_member_blocks (generate_html_content xml_root title)
       = length (filter is_member (descendants xml_root))
   \<and> count_member_blocks (join ''\<newline>'' (member_parts m)) = 1"
proof -
  have nl: "CHR ''\<newline>'' \<notin> set block_open" and ne: "block_open \<noteq> []"
    by (simp_all add: block_open_def)
  have one: "count_member_blocks (join ''\<newline>'' (member_parts m)) = 1"
    unfolding count_member_blocks_def
    by (simp only: count_occurrences_join[OF nl ne] count_blocks_member_parts)
  have parts: "generate_html_content xml_root title =
     join ''\<newline>'' (document_head title
        @ concat (map member_parts (filter is_member (descendants xml_root)))
        @ document_tail)"
    by (simp only: generate_html_content_parts findall_members)
  have count: "count_member_blocks (generate_html_content xml_root title)
       = length (filter is_member (descendants xml_root))"
    by (simp only: count_member_blocks_generate findall_members)
  from parts count one show ?thesis by (intro conjI)
qed

text \<open>
  Claim C2. The claim asks for the placeholder whenever the summary text is empty after
  trimming. The code tests the text before trimming it: a member whose summary holds only
  white space gets the empty string as its summary, not the placeholder.
\<close>

theorem extract_member_info_blank_summary:
  "extract_member_info blank_member = (''M:Demo.Blank'', [])
   \<and> snd (extract_member_info blank_member) \<noteq> no_summary"
  by (simp add: extract_member_info_def blank_member_def attrib_get_def find_tag_def
        html_escape_def strip_def isspace_def no_summary_def)




text \<open>
  Claim C4. The identifier of a member is the value of its \<open>name\<close> attribute when it has
  one and the string \<open>Unknown\<close> otherwise; the heading of its block holds that identifier,
  escaped, and it reads back as the identifier.
\<close>

theorem heading_identifier:
  "fst (extract_member_info m)
     = (case map_of (el_attrib m) ''name'' of Some v \<Rightarrow> v | None \<Rightarrow> ''Unknown'')
   \<and> member_parts m ! 1
     = ''        <h2><code class='member-name'>''
       @ html_escape (case map_of (el_attrib m) ''name'' of Some v \<Rightarrow> v | None \<Rightarrow> ''Unknown'')
       @ ''</code></h2>''
   \<and> html_unescape (html_escape (fst (extract_member_info m))) = fst (extract_member_info m)"
proof -
  obtain name summary where nm: "extract_member_info m = (name, summary)"
    by (cases "extract_member_info m")
  have n: "name = (case map_of (el_attrib m) ''name'' of Some v \<Rightarrow> v | None \<Rightarrow> ''Unknown'')"
    using extract_member_info_name[of m] nm by (simp add: attrib_get_def)
  have "member_parts m ! 1 = ''        <h2><code class='member-name'>'' @ html_escape name @ ''</code></h2>''"
    by (simp add: member_parts_def nm)
  with n nm show ?thesis by (simp add: html_unescape_escape)
qed







text \<open>
  Claim C7. For a tree with no member node below its root the rendered document is the head
  followed at once by the tail. The document text itself starts with the doctype, holds the
  \<open>title\<close> element, the \<open>body\<close> tags and the escaped title as its one \<open>h1\<close> heading,
  ends with \<open></html>\<close>, and has no member block.
\<close>

theorem no_members_document:
  assumes "filter is_member (descendants xml_root) = []"
  shows "generate_html_content xml_root title
           = join ''\<newline>'' (document_head title @ document_tail)
       \<and> prefix ''<!DOCTYPE html>'' (generate_html_content xml_root title)
       \<and> sublist (''    <title>'' @ html_escape title @ ''</title>'')
           (generate_html_content xml_root title)
       \<and> sublist ''<body>'' (generate_html_content xml_root title)
       \<and> sublist (''    <h1>'' @ html_escape title @ ''</h1>'')
           (generate_html_content xml_root title)
       \<and> sublist ''</body>'' (generate_html_content xml_root title)
       \<and> suffix ''</html>'' (generate_html_content xml_root title)
       \<and> count_occurrences ''<h1>'' (generate_html_content xml_root title) = 1
       \<and> count_member_blocks (generate_html_content xml_root title) = 0"
proof -
  have empty: "findall_descendants xml_root ''member'' = []"
    using assms by (simp only: findall_members)
  have doc: "generate_html_content xml_root title
           = join ''\<newline>'' (document_head title @ document_tail)"
    by (simp only: generate_html_content_parts empty list.map concat.simps append_Nil)
  have none: "count_member_blocks (generate_html_content xml_root title) = 0"
    by (simp only: count_member_blocks_generate empty list.size)
  have t: "sublist (''    <title>'' @ html_escape title @ ''</title>'')
           (generate_html_content xml_root title)"
    and b: "sublist ''<body>'' (generate_html_content xml_root title)"
    and h: "sublist (''    <h1>'' @ html_escape title @ ''</h1>'')
           (generate_html_content xml_root title)"
    by (rule head_in_document, simp add: document_head_def)+
  have b': "sublist ''</body>'' (generate_html_content xml_root title)"
    by (rule tail_in_document) (simp add: document_tail_def)
  from doc document_starts t b h b' document_ends count_h1_generate none
  show ?thesis by (intro conjI)
qed

theorem no_members_document_witness:
  "filter is_member (descendants empty_doc) = []
   \<and> prefix ''<!DOCTYPE html>'' (generate_html_content empty_doc ''A & B'')
   \<and> sublist ''    <h1>A &amp; B</h1>'' (generate_html_content empty_doc ''A & B'')
   \<and> suffix ''</html>'' (generate_html_content empty_doc ''A & B'')
   \<and> count_member_blocks (generate_html_content empty_doc ''A & B'') = 0"
proof -
  have h: "filter is_member (descendants empty_doc) = []"
    by (simp add: empty_doc_def is_member_def)
  have e: "''    <h1>'' @ html_escape ''A & B'' @ ''</h1>'' = ''    <h1>A &amp; B</h1>''"
    by (simp add: html_escape_def replace_def)
  note r = no_members_document[OF h, of "''A & B''", unfolded e]
  from r have "prefix ''<!DOCTYPE html>'' (generate_html_content empty_doc ''A & B'')"
    and "sublist ''    <h1>A &amp; B</h1>'' (generate_html_content empty_doc ''A & B'')"
    and "suffix ''</html>'' (generate_html_content empty_doc ''A & B'')"
    and "count_member_blocks (generate_html_content empty_doc ''A & B'') = 0"
    by blast+
  with h show ?thesis by (intro conjI)
qed

text \<open>
  Claim C8. After a successful conversion the output file exists, and the second diagnostic
  line holds a decimal numeral whose value is the number of member blocks in the file's text.
\<close>

theorem processed_count_matches_blocks:
  assumes "fst (convert_xml_to_html parse input_path output_path w) = Inr ()"
  shows "\<exists>content digits.
           fs (snd (convert_xml_to_html parse input_path output_path w)) (path_str output_path)
             = Some (File content)
         \<and> stdout (snd (convert_xml_to_html parse input_path output_path w))
             = stdout w @
                 [written_glyph @ '' Styled documentation written to '' @ path_str output_path,
                  processed_glyph @ '' Processed '' @ digits @ '' documentation members'']
         \<and> decimal_value digits = Some (count_member_blocks content)"
proof -
  from assms obtain content :: string and root where
    s: "snd (convert_xml_to_html parse input_path output_path w)
       = w\<lparr>fs := (fs w)(path_str output_path \<mapsto> File (generate_html_content root default_title)),
            stdout := stdout w @
              [written_glyph @ '' Styled documentation written to '' @ path_str output_path,
               processed_glyph @ '' Processed '' @
                 str_nat (length (findall_descendants root ''member'')) @
                 '' documentation members'']\<rparr>"
    by (rule convert_success)
  have "decimal_value (str_nat (length (findall_descendants root ''member'')))
          = Some (count_member_blocks (generate_html_content root default_title))"
    by (simp only: decimal_value_str_nat count_member_blocks_generate)
  then show ?thesis
    by (intro exI[of _ "generate_html_content root default_title"]
          exI[of _ "str_nat (length (findall_descendants root ''member''))"])
       (simp add: s)
qed

theorem processed_count_matches_blocks_witness:
  "fst (convert_xml_to_html sample_parse ''in.xml'' ''./out.html'' sample_world) = Inr ()
   \<and> stdout (snd (convert_xml_to_html sample_parse ''in.xml'' ''./out.html'' sample_world))
       = [written_glyph @ '' Styled documentation written to out.html'',
          processed_glyph @ '' Processed 2 documentation members'']
   \<and> fs (snd (convert_xml_to_html sample_parse ''in.xml'' ''./out.html'' sample_world))
        ''out.html'' = Some (File (generate_html_content sample_doc default_title))
   \<and> count_member_blocks (generate_html_content sample_doc default_title) = 2"
proof -
  let ?r = "convert_xml_to_html sample_parse ''in.xml'' ''./out.html'' sample_world"
  have h: "fst ?r = Inr ()"
    by (simp add: sample_conversion)
  have out: "stdout (snd ?r)
       = [written_glyph @ '' Styled documentation written to out.html'',
          processed_glyph @ '' Processed 2 documentation members'']"
    and written: "fs (snd ?r) ''out.html''
       = Some (File (generate_html_content sample_doc default_title))"
    by (simp_all add: sample_conversion)
  from processed_count_matches_blocks[OF h] obtain content digits where
    c: "fs (snd ?r) (path_str ''./out.html'') = Some (File content)"
    and l: "stdout (snd ?r) = stdout sample_world @
                 [written_glyph @ '' Styled documentation written to '' @ path_str ''./out.html'',
                  processed_glyph @ '' Processed '' @ digits @ '' documentation members'']"
    and v: "decimal_value digits = Some (count_member_blocks content)"
    by blast
  from c written have content: "content = generate_html_content sample_doc default_title"
    by (simp add: sample_paths)
  from l out have "digits @ '' documentation members'' = ''2'' @ '' documentation members''"
    by (simp add: sample_world_def)
  then have "digits = ''2''"
    by (simp only: append_same_eq)
  with v content have "count_member_blocks (generate_html_content sample_doc default_title) = 2"
    by (simp add: decimal_value_def digit_value_def)
  with h out written show ?thesis by (intro conjI)
qed

text \<open>
  Claim C9. Only the children of a member are searched for a summary. A member with no child
  tagged \<open>summary\<close> gets the placeholder, whatever lies deeper; and when there are children
  tagged \<open>summary\<close>, the first of them alone decides the result.
\<close>

theorem summary_direct_child_only:
  "(list_all (\<lambda>c. el_tag c \<noteq> ''summary'') (el_children m)
      \<longrightarrow> snd (extract_member_info m) = no_summary)
   \<and> (el_children m' = pre @ s # post \<and> list_all (\<lambda>c. el_tag c \<noteq> ''summary'') pre
        \<and> el_tag s = ''summary''
      \<longrightarrow> snd (extract_member_info m') = summary_if_present (el_text s))"
proof (intro conjI impI)
  assume "list_all (\<lambda>c. el_tag c \<noteq> ''summary'') (el_children m)"
  then have "find_tag m ''summary'' = None"
    unfolding find_tag_def by (rule find_no_match)
  then show "snd (extract_member_info m) = no_summary"
    by (simp add: extract_member_info_def)
next
  assume a: "el_children m' = pre @ s # post \<and> list_all (\<lambda>c. el_tag c \<noteq> ''summary'') pre
        \<and> el_tag s = ''summary''"
  then have "find_tag m' ''summary'' = Some s"
    unfolding find_tag_def using find_first_match[of "\<lambda>c. el_tag c = ''summary''" pre s post]
    by simp
  then show "snd (extract_member_info m') = summary_if_present (el_text s)"
    by (simp add: extract_member_info_def summary_if_present_def split: option.splits)
qed

theorem summary_direct_child_only_witness:
  "list_all (\<lambda>c. el_tag c \<noteq> ''summary'') (el_children wrapped_member)
   \<and> sample_summary \<in> set (descendants wrapped_member)
   \<and> snd (extract_member_info wrapped_member) = no_summary
   \<and> el_children twice_member
       = [Element ''param'' [] (Some ''p'') []] @ Element ''summary'' [] (Some ''first'') []
           # [Element ''summary'' [] (Some ''second'') []]
   \<and> snd (extract_member_info twice_member) = ''first''"
proof -
  have h1: "list_all (\<lambda>c. el_tag c \<noteq> ''summary'') (el_children wrapped_member)"
    by (simp add: wrapped_member_def)
  have h2: "el_children twice_member
       = [Element ''param'' [] (Some ''p'') []] @ Element ''summary'' [] (Some ''first'') []
           # [Element ''summary'' [] (Some ''second'') []]
     \<and> list_all (\<lambda>c. el_tag c \<noteq> ''summary'') [Element ''param'' [] (Some ''p'') []]
     \<and> el_tag (Element ''summary'' [] (Some ''first'') []) = ''summary''"
    by (simp add: twice_member_def)
  have d: "sample_summary \<in> set (descendants wrapped_member)"
    by (simp add: wrapped_member_def)
  have e: "summary_if_present (Some ''first'') = ''first''"
    by (simp add: summary_if_present_def html_escape_def replace_def strip_def isspace_def)
  note r = summary_direct_child_only[of wrapped_member twice_member
      "[Element ''param'' [] (Some ''p'') []]" "Element ''summary'' [] (Some ''first'') []"
      "[Element ''summary'' [] (Some ''second'') []]"]
  from r h1 have c1: "snd (extract_member_info wrapped_member) = no_summary" by blast
  from r h2 have c2: "snd (extract_member_info twice_member) = ''first''" by (simp add: e)
  from h1 d c1 h2 c2 show ?thesis by blast
qed

text \<open>
  Claim C10. The driver renders every document with the default title: the text of the file
  written by a successful conversion holds the \<open>title\<close> element and the \<open>h1\<close> heading with
  the string \<open>NuGetInspectorApp Documentation\<close>, and it holds no other \<open>title\<close> or \<open>h1\<close>
  tag.
\<close>

theorem driver_title_is_default:
  assumes "fst (convert_xml_to_html parse input_path output_path w) = Inr ()"
  shows "\<exists>content root.
           fs (snd (convert_xml_to_html parse input_path output_path w)) (path_str output_path)
             = Some (File content)
         \<and> content = generate_html_content root default_title
         \<and> sublist ''    <title>NuGetInspectorApp Documentation</title>'' content
         \<and> sublist ''    <h1>NuGetInspectorApp Documentation</h1>'' content
         \<and> count_occurrences ''<title>'' content = 1
         \<and> count_occurrences ''<h1>'' content = 1"
proof -
  from assms obtain content :: string and root where
    s: "snd (convert_xml_to_html parse input_path output_path w)
       = w\<lparr>fs := (fs w)(path_str output_path \<mapsto> File (generate_html_content root default_title)),
            stdout := stdout w @
              [written_glyph @ '' Styled documentation written to '' @ path_str output_path,
               processed_glyph @ '' Processed '' @
                 str_nat (length (findall_descendants root ''member'')) @
                 '' documentation members'']\<rparr>"
    by (rule convert_success)
  have e: "html_escape default_title = ''NuGetInspectorApp Documentation''"
    by (simp add: default_title_def html_escape_def replace_def)
  have t: "sublist ''    <title>NuGetInspectorApp Documentation</title>''
             (generate_html_content root default_title)"
    and h: "sublist ''    <h1>NuGetInspectorApp Documentation</h1>''
             (generate_html_content root default_title)"
    by (rule head_in_document, simp add: document_head_def e)+
  have f: "fs (snd (convert_xml_to_html parse input_path output_path w)) (path_str output_path)
             = Some (File (generate_html_content root default_title))"
    by (simp add: s)
  from f t h count_title_generate count_h1_generate show ?thesis by blast
qed

theorem driver_title_is_default_witness:
  "fst (convert_xml_to_html sample_parse ''in.xml'' ''./out.html'' sample_world) = Inr ()
   \<and> fs (snd (convert_xml_to_html sample_parse ''in.xml'' ''./out.html'' sample_world))
        ''out.html'' = Some (File (generate_html_content sample_doc default_title))
   \<and> sublist ''    <title>NuGetInspectorApp Documentation</title>''
        (generate_html_content sample_doc default_title)
   \<and> sublist ''    <h1>NuGetInspectorApp Documentation</h1>''
        (generate_html_content sample_doc default_title)
   \<and> count_occurrences ''<title>'' (generate_html_content sample_doc default_title) = 1
   \<and> count_occurrences ''<h1>'' (generate_html_content sample_doc default_title) = 1"
proof -
  let ?r = "convert_xml_to_html sample_parse ''in.xml'' ''./out.html'' sample_world"
  have h: "fst ?r = Inr ()"
    by (simp add: sample_conversion)
  have written: "fs (snd ?r) ''out.html''
       = Some (File (generate_html_content sample_doc default_title))"
    by (simp add: sample_conversion)
  from driver_title_is_default[OF h] obtain content root where
    c: "fs (snd ?r) (path_str ''./out.html'') = Some (File content)"
    and "content = generate_html_content root default_title"
    and t: "sublist ''    <title>NuGetInspectorApp Documentation</title>'' content"
    and h1: "sublist ''    <h1>NuGetInspectorApp Documentation</h1>'' content"
    and n: "count_occurrences ''<title>'' content = 1" "count_occurrences ''<h1>'' content = 1"
    by blast
  from c written have "content = generate_html_content sample_doc default_title"
    by (simp add: sample_paths)
  with h written t h1 n show ?thesis by (intro conjI) simp_all
qed

end
